theory Spec2Isabelle
  imports Complex_Main
begin

section \<open>TSGraph: nodes, arcs and the graph container\<close>

text \<open>
  The library keeps its nodes and arcs in intrusive doubly-linked lists and links them by
  direct object references. The embedding therefore uses an explicit store: every node and
  every arc lives at an address, a reference is an address, and \<open>null\<close> is \<open>None\<close>.
  Public setters of the classes are functions of their own, because most of them refuse
  \<open>null\<close> and the methods of the graph go through them.
\<close>

subsection \<open>Outcomes and numbers\<close>

text \<open>
  A method either returns, or throws a \<open>TypeError\<close> (a property access on \<open>null\<close>),
  or, for the loops that follow \<open>next\<close> references, is cut off when its fuel is spent.
\<close>

datatype 'a outcome = Ok 'a | TypeError | OutOfFuel

text \<open>
  A JavaScript number. The code never does arithmetic on numbers, it only compares them
  with zero and takes \<open>Math.max(0, x)\<close>, so a finite double is represented exactly by the
  rational it denotes (the sign of zero cannot be observed by any comparison the code does).
\<close>

datatype number = Num rat | NaN | PosInf | NegInf

fun isNaN :: "number \<Rightarrow> bool" where
  "isNaN NaN = True"
| "isNaN _ = False"

fun isFinite :: "number \<Rightarrow> bool" where
  "isFinite (Num _) = True"
| "isFinite _ = False"

text \<open>The comparison \<open>value >= 0\<close>; any comparison with \<open>NaN\<close> is false.\<close>

fun ge_zero :: "number \<Rightarrow> bool" where
  "ge_zero (Num r) = (0 \<le> r)"
| "ge_zero PosInf = True"
| "ge_zero NegInf = False"
| "ge_zero NaN = False"

text \<open>\<open>Math.max(0.0, cost)\<close>; it is \<open>NaN\<close> when an argument is.\<close>

fun Math_max0 :: "number \<Rightarrow> number" where
  "Math_max0 (Num r) = Num (max 0 r)"
| "Math_max0 PosInf = PosInf"
| "Math_max0 NegInf = Num 0"
| "Math_max0 NaN = NaN"

text \<open>
  An argument of a public method: \<open>undefined\<close>, \<open>null\<close> or an object. The two absent
  values are kept apart because \<open>addNode\<close> tells them apart.
\<close>

datatype 'a arg = Undefined | Null | Obj 'a

fun arg_ref :: "'a arg \<Rightarrow> 'a option" where
  "arg_ref (Obj x) = Some x"
| "arg_ref _ = None"

type_synonym nref = nat
type_synonym aref = nat

text \<open>
  A value of the type parameter \<open>T\<close> of a graph. The code compares values with \<open>==\<close>;
  between two values of \<open>T\<close> that is equality, except that the number \<open>NaN\<close> is equal to
  nothing, itself included. So \<open>NaN\<close> is a value of its own, and \<open>null\<close> and \<open>undefined\<close>
  (here \<open>None\<close>) are equal to each other and to nothing else.
\<close>

datatype 'v jsval = NaNVal | Val 'v

fun loose_eq :: "'v jsval option \<Rightarrow> 'v jsval option \<Rightarrow> bool" where
  "loose_eq None None = True"
| "loose_eq (Some (Val x)) (Some (Val y)) = (x = y)"
| "loose_eq _ _ = False"

subsection \<open>GraphArc\<close>

record GraphArc =
  a_node :: "nref option"
  a_prev :: "aref option"
  a_next :: "aref option"
  a_cost :: number

text \<open>\<open>constructor(node, cost = 0.0)\<close>; an absent node is stored as \<open>null\<close>.\<close>

definition new_GraphArc :: "nref option \<Rightarrow> number \<Rightarrow> GraphArc" where
  "new_GraphArc node cost = \<lparr>a_node = node, a_prev = None, a_next = None, a_cost = cost\<rparr>"

definition arc_clear :: "GraphArc \<Rightarrow> GraphArc" where
  "arc_clear a = \<lparr>a_node = None, a_prev = None, a_next = None, a_cost = Num 0\<rparr>"

text \<open>\<open>set cost\<close>: the value is stored only when it is a finite number that is not negative.\<close>

definition arc_set_cost :: "number \<Rightarrow> GraphArc \<Rightarrow> GraphArc" where
  "arc_set_cost v a =
     a\<lparr>a_cost := (if \<not> isNaN v \<and> isFinite v \<and> ge_zero v then v else a_cost a)\<rparr>"

text \<open>\<open>set previous\<close>, \<open>set next\<close>, \<open>set node\<close>: an absent reference is ignored.\<close>

definition arc_set_previous :: "aref option \<Rightarrow> GraphArc \<Rightarrow> GraphArc" where
  "arc_set_previous v a = a\<lparr>a_prev := (case v of Some x \<Rightarrow> Some x | None \<Rightarrow> a_prev a)\<rparr>"

definition arc_set_next :: "aref option \<Rightarrow> GraphArc \<Rightarrow> GraphArc" where
  "arc_set_next v a = a\<lparr>a_next := (case v of Some x \<Rightarrow> Some x | None \<Rightarrow> a_next a)\<rparr>"

definition arc_set_node :: "nref option \<Rightarrow> GraphArc \<Rightarrow> GraphArc" where
  "arc_set_node v a = a\<lparr>a_node := (case v of Some x \<Rightarrow> Some x | None \<Rightarrow> a_node a)\<rparr>"

subsection \<open>GraphNode\<close>

datatype node_id = StrId string | NumId number

record 'v GraphNode =
  n_id :: node_id
  n_val :: "'v jsval option"
  n_prev :: "nref option"
  n_next :: "nref option"
  n_arcList :: "aref option"
  n_curArc :: "aref option"
  n_marked :: bool
  n_parent :: "nref option"
  n_depth :: number

text \<open>\<open>clear()\<close> gives the defaults; the constructor clears and then stores the data.\<close>

definition node_clear :: "'v GraphNode" where
  "node_clear = \<lparr>n_id = NumId (Num 0), n_val = None, n_prev = None, n_next = None,
     n_arcList = None, n_curArc = None, n_marked = False, n_parent = None,
     n_depth = Num 0\<rparr>"

definition new_GraphNode :: "'v jsval option \<Rightarrow> 'v GraphNode" where
  "new_GraphNode data = node_clear\<lparr>n_val := data\<rparr>"

definition node_set_id :: "node_id \<Rightarrow> 'v GraphNode \<Rightarrow> 'v GraphNode" where
  "node_set_id v n =
     (case v of
        StrId s \<Rightarrow> n\<lparr>n_id := StrId s\<rparr>
      | NumId x \<Rightarrow> n\<lparr>n_id := (if \<not> isNaN x \<and> isFinite x \<and> ge_zero x then NumId x else n_id n)\<rparr>)"

definition node_set_marked :: "bool \<Rightarrow> 'v GraphNode \<Rightarrow> 'v GraphNode" where
  "node_set_marked v n = n\<lparr>n_marked := (if v = True then True else False)\<rparr>"

definition node_set_value :: "'v jsval option \<Rightarrow> 'v GraphNode \<Rightarrow> 'v GraphNode" where
  "node_set_value v n = n\<lparr>n_val := (case v of Some x \<Rightarrow> Some x | None \<Rightarrow> n_val n)\<rparr>"

definition node_set_previous :: "nref option \<Rightarrow> 'v GraphNode \<Rightarrow> 'v GraphNode" where
  "node_set_previous v n = n\<lparr>n_prev := (case v of Some x \<Rightarrow> Some x | None \<Rightarrow> n_prev n)\<rparr>"

definition node_set_next :: "nref option \<Rightarrow> 'v GraphNode \<Rightarrow> 'v GraphNode" where
  "node_set_next v n = n\<lparr>n_next := (case v of Some x \<Rightarrow> Some x | None \<Rightarrow> n_next n)\<rparr>"

definition node_set_parent :: "nref option \<Rightarrow> 'v GraphNode \<Rightarrow> 'v GraphNode" where
  "node_set_parent v n = n\<lparr>n_parent := (case v of Some x \<Rightarrow> Some x | None \<Rightarrow> n_parent n)\<rparr>"

definition node_set_arcList :: "aref option \<Rightarrow> 'v GraphNode \<Rightarrow> 'v GraphNode" where
  "node_set_arcList v n =
     n\<lparr>n_arcList := (case v of Some x \<Rightarrow> Some x | None \<Rightarrow> n_arcList n)\<rparr>"

subsection \<open>The store\<close>

text \<open>
  The objects of a run: the nodes and arcs by address, the next free address of each kind,
  and the fields of the one graph object the claims speak about.
\<close>

record 'v state =
  nodes :: "nref \<Rightarrow> 'v GraphNode"
  arcs :: "aref \<Rightarrow> GraphArc"
  node_alloc :: nat
  arc_alloc :: nat
  g_size :: int
  g_nodeList :: "nref option"
  g_curNode :: "nref option"
  g_struct :: "nref list"
  g_traversal :: "nref list"

definition upd_node :: "nref \<Rightarrow> ('v GraphNode \<Rightarrow> 'v GraphNode) \<Rightarrow> 'v state \<Rightarrow> 'v state" where
  "upd_node n f s = s\<lparr>nodes := (nodes s)(n := f (nodes s n))\<rparr>"

definition upd_arc :: "aref \<Rightarrow> (GraphArc \<Rightarrow> GraphArc) \<Rightarrow> 'v state \<Rightarrow> 'v state" where
  "upd_arc a f s = s\<lparr>arcs := (arcs s)(a := f (arcs s a))\<rparr>"

subsection \<open>Methods of GraphNode\<close>

text \<open>
  \<open>get arcCount\<close>: counts the arcs reached from the head of the arc list by \<open>next\<close>.
\<close>

fun arcCount_loop :: "nat \<Rightarrow> 'v state \<Rightarrow> aref option \<Rightarrow> nat \<Rightarrow> nat outcome" where
  "arcCount_loop 0 s arc count = OutOfFuel"
| "arcCount_loop (Suc k) s None count = Ok count"
| "arcCount_loop (Suc k) s (Some a) count = arcCount_loop k s (a_next (arcs s a)) (count + 1)"

definition arcCount :: "nat \<Rightarrow> 'v state \<Rightarrow> nref \<Rightarrow> nat outcome" where
  "arcCount fuel s this = arcCount_loop fuel s (n_arcList (nodes s this)) 0"

text \<open>
  \<open>getArc(target)\<close>: the first arc of the list whose node is the target, or \<open>null\<close>.
\<close>

fun getArc_loop :: "nat \<Rightarrow> 'v state \<Rightarrow> aref option \<Rightarrow> nref \<Rightarrow> aref option outcome" where
  "getArc_loop 0 s a target = OutOfFuel"
| "getArc_loop (Suc k) s None target = Ok None"
| "getArc_loop (Suc k) s (Some a) target =
     (if a_node (arcs s a) = Some target then Ok (Some a)
      else getArc_loop k s (a_next (arcs s a)) target)"

definition getArc :: "nat \<Rightarrow> 'v state \<Rightarrow> nref \<Rightarrow> nref arg \<Rightarrow> aref option outcome" where
  "getArc fuel s this target =
     (case arg_ref target of
        None \<Rightarrow> Ok None
      | Some t \<Rightarrow> getArc_loop fuel s (n_arcList (nodes s this)) t)"

definition connected :: "nat \<Rightarrow> 'v state \<Rightarrow> nref \<Rightarrow> nref arg \<Rightarrow> bool outcome" where
  "connected fuel s this target =
     (case arg_ref target of
        None \<Rightarrow> Ok False
      | Some t \<Rightarrow>
          (case getArc fuel s this target of
             Ok r \<Rightarrow> Ok (r \<noteq> None)
           | TypeError \<Rightarrow> TypeError
           | OutOfFuel \<Rightarrow> OutOfFuel))"

text \<open>
  \<open>addArc(target, cost = 1.0)\<close>: a new arc is allocated and appended behind \<open>_curArc\<close>.
  The fields \<open>_arcList\<close> and \<open>_curArc\<close> are written directly, the links of the arcs
  through the setters.
\<close>

definition addArc :: "'v state \<Rightarrow> nref \<Rightarrow> nref arg \<Rightarrow> number \<Rightarrow> 'v state outcome" where
  "addArc s this target cost =
     (case arg_ref target of
        None \<Rightarrow> Ok s
      | Some t \<Rightarrow>
          (let arc = arc_alloc s;
               s1 = s\<lparr>arcs := (arcs s)(arc := new_GraphArc (Some t) (Math_max0 cost)),
                      arc_alloc := Suc arc\<rparr>
           in case n_arcList (nodes s1 this) of
                None \<Rightarrow> Ok (upd_node this (\<lambda>n. n\<lparr>n_arcList := Some arc, n_curArc := Some arc\<rparr>) s1)
              | Some _ \<Rightarrow>
                  (let s2 = upd_arc arc (arc_set_previous (n_curArc (nodes s1 this))) s1
                   in case n_curArc (nodes s2 this) of
                        None \<Rightarrow> TypeError
                      | Some cur \<Rightarrow>
                          Ok (upd_node this (\<lambda>n. n\<lparr>n_curArc := Some arc\<rparr>)
                                (upd_arc cur (arc_set_next (Some arc)) s2)))))"

text \<open>
  \<open>removeArc(target)\<close>: the arc found by \<open>getArc\<close> is spliced out. The neighbours are
  written through the setters \<open>next\<close> and \<open>previous\<close>, the head \<open>_arcList\<close> directly.
\<close>

definition removeArc :: "nat \<Rightarrow> 'v state \<Rightarrow> nref \<Rightarrow> nref arg \<Rightarrow> (bool \<times> 'v state) outcome" where
  "removeArc fuel s this target =
     (case arg_ref target of
        None \<Rightarrow> Ok (False, s)
      | Some t \<Rightarrow>
          (case getArc fuel s this target of
             Ok None \<Rightarrow> Ok (False, s)
           | Ok (Some arc) \<Rightarrow>
               (let s1 = (case a_prev (arcs s arc) of
                            None \<Rightarrow> s
                          | Some p \<Rightarrow> upd_arc p (arc_set_next (a_next (arcs s arc))) s);
                    s2 = (case a_next (arcs s1 arc) of
                            None \<Rightarrow> s1
                          | Some nx \<Rightarrow> upd_arc nx (arc_set_previous (a_prev (arcs s1 arc))) s1);
                    s3 = (if n_arcList (nodes s2 this) = Some arc
                          then upd_node this (\<lambda>n. n\<lparr>n_arcList := a_next (arcs s2 arc)\<rparr>) s2
                          else s2)
                in Ok (True, s3))
           | TypeError \<Rightarrow> TypeError
           | OutOfFuel \<Rightarrow> OutOfFuel))"

text \<open>The targets of the arcs of a node, in list order (what a caller reads by \<open>next\<close>).\<close>

fun arc_targets :: "nat \<Rightarrow> 'v state \<Rightarrow> aref option \<Rightarrow> nref option list outcome" where
  "arc_targets 0 s a = OutOfFuel"
| "arc_targets (Suc k) s None = Ok []"
| "arc_targets (Suc k) s (Some a) =
     (case arc_targets k s (a_next (arcs s a)) of
        Ok ts \<Rightarrow> Ok (a_node (arcs s a) # ts)
      | TypeError \<Rightarrow> TypeError
      | OutOfFuel \<Rightarrow> OutOfFuel)"

subsection \<open>Methods of Graph\<close>

text \<open>
  \<open>clear()\<close>: both buffers are emptied, every node of the list and every arc of its list
  is visited and assigned \<open>null\<close> through the setters, and the fields of the graph are reset.
  The constructor is \<open>clear()\<close> on a graph whose node list is still absent.
\<close>

fun clear_arcs :: "nat \<Rightarrow> 'v state \<Rightarrow> aref option \<Rightarrow> 'v state outcome" where
  "clear_arcs 0 s arc = OutOfFuel"
| "clear_arcs (Suc k) s None = Ok s"
| "clear_arcs (Suc k) s (Some arc) =
     (let nextArc = a_next (arcs s arc);
          s1 = upd_arc arc (arc_set_previous None) s;
          s2 = upd_arc arc (arc_set_next None) s1;
          s3 = upd_arc arc (arc_set_node None) s2
      in clear_arcs k s3 nextArc)"

fun clear_nodes :: "nat \<Rightarrow> 'v state \<Rightarrow> nref option \<Rightarrow> 'v state outcome" where
  "clear_nodes 0 s node = OutOfFuel"
| "clear_nodes (Suc k) s None = Ok s"
| "clear_nodes (Suc k) s (Some node) =
     (let next = n_next (nodes s node)
      in case clear_arcs k s (n_arcList (nodes s node)) of
           Ok s1 \<Rightarrow>
             (let s2 = upd_node node (node_set_value None) s1;
                  s3 = upd_node node (node_set_previous None) s2;
                  s4 = upd_node node (node_set_next None) s3;
                  s5 = upd_node node (node_set_arcList None) s4
              in clear_nodes k s5 next)
         | TypeError \<Rightarrow> TypeError
         | OutOfFuel \<Rightarrow> OutOfFuel)"

definition clear :: "nat \<Rightarrow> 'v state \<Rightarrow> 'v state outcome" where
  "clear fuel s =
     (let s0 = s\<lparr>g_struct := [], g_traversal := []\<rparr>
      in case clear_nodes fuel s0 (g_nodeList s0) of
           Ok s1 \<Rightarrow> Ok (s1\<lparr>g_nodeList := None, g_curNode := None, g_size := 0\<rparr>)
         | TypeError \<Rightarrow> TypeError
         | OutOfFuel \<Rightarrow> OutOfFuel)"

definition new_Graph :: "'v state \<Rightarrow> 'v state" where
  "new_Graph s = s\<lparr>g_struct := [], g_traversal := [], g_nodeList := None, g_curNode := None,
     g_size := 0\<rparr>"

text \<open>A store with no object allocated yet, holding a newly constructed graph.\<close>

definition empty_store :: "'v state" where
  "empty_store = \<lparr>nodes = (\<lambda>_. node_clear), arcs = (\<lambda>_. arc_clear (new_GraphArc None (Num 0))),
     node_alloc = 0, arc_alloc = 0, g_size = 0, g_nodeList = None, g_curNode = None,
     g_struct = [], g_traversal = []\<rparr>"

text \<open>\<open>new TSMT$GraphNode(data)\<close>: the node is allocated at the next free address.\<close>

definition alloc_node :: "'v jsval option \<Rightarrow> 'v state \<Rightarrow> nref \<times> 'v state" where
  "alloc_node data s =
     (node_alloc s,
      s\<lparr>nodes := (nodes s)(node_alloc s := new_GraphNode data), node_alloc := Suc (node_alloc s)\<rparr>)"

text \<open>
  \<open>findNode(value)\<close>: the first node of the list whose value is \<open>==\<close> to the argument.
\<close>

fun findNode_loop :: "nat \<Rightarrow> 'v state \<Rightarrow> nref option \<Rightarrow> 'v jsval option \<Rightarrow> nref option outcome" where
  "findNode_loop 0 s node v = OutOfFuel"
| "findNode_loop (Suc k) s None v = Ok None"
| "findNode_loop (Suc k) s (Some n) v =
     (if loose_eq (n_val (nodes s n)) v then Ok (Some n)
      else findNode_loop k s (n_next (nodes s n)) v)"

definition findNode :: "nat \<Rightarrow> 'v state \<Rightarrow> 'v jsval option \<Rightarrow> nref option outcome" where
  "findNode fuel s v = findNode_loop fuel s (g_nodeList s) v"

text \<open>
  \<open>addNode(node)\<close>: the guard is \<open>node === undefined && node == null\<close>, which only
  \<open>undefined\<close> satisfies. The size is incremented before the list is touched.
\<close>

definition addNode :: "'v state \<Rightarrow> nref arg \<Rightarrow> 'v state outcome" where
  "addNode s node =
     (case node of
        Undefined \<Rightarrow> Ok s
      | _ \<Rightarrow>
          (let s1 = s\<lparr>g_size := g_size s + 1\<rparr>
           in case g_nodeList s1 of
                None \<Rightarrow> Ok (s1\<lparr>g_nodeList := arg_ref node, g_curNode := arg_ref node\<rparr>)
              | Some _ \<Rightarrow>
                  (case node of
                     Obj n \<Rightarrow>
                       (let s2 = upd_node n (node_set_previous (g_curNode s1)) s1
                        in case g_curNode s2 of
                             None \<Rightarrow> TypeError
                           | Some cur \<Rightarrow>
                               Ok ((upd_node cur (node_set_next (Some n)) s2)\<lparr>g_curNode := Some n\<rparr>))
                   | _ \<Rightarrow> TypeError)))"

text \<open>
  \<open>__unlink(node)\<close>: for every arc of the node, the arc list of the arc's target is
  walked and each arc back to the node is spliced out, then the arc itself is spliced out
  of the node's list. All writes go through the setters.
\<close>

fun unlink_inner :: "nat \<Rightarrow> 'v state \<Rightarrow> nref \<Rightarrow> nref \<Rightarrow> aref option \<Rightarrow> 'v state outcome" where
  "unlink_inner 0 s node node1 arc1 = OutOfFuel"
| "unlink_inner (Suc k) s node node1 None = Ok s"
| "unlink_inner (Suc k) s node node1 (Some arc1) =
     (let hook = a_next (arcs s arc1)
      in if a_node (arcs s arc1) = Some node
         then (let s1 = (case a_prev (arcs s arc1) of
                           None \<Rightarrow> s
                         | Some p \<Rightarrow> upd_arc p (arc_set_next hook) s);
                   s2 = (case hook of
                           None \<Rightarrow> s1
                         | Some h \<Rightarrow> upd_arc h (arc_set_previous (a_prev (arcs s1 arc1))) s1);
                   s3 = (if n_arcList (nodes s2 node1) = Some arc1
                         then upd_node node1 (node_set_arcList hook) s2
                         else s2)
               in unlink_inner k s3 node node1 hook)
         else unlink_inner k s node node1 hook)"

fun unlink_outer :: "nat \<Rightarrow> 'v state \<Rightarrow> nref \<Rightarrow> aref option \<Rightarrow> 'v state outcome" where
  "unlink_outer 0 s node arc0 = OutOfFuel"
| "unlink_outer (Suc k) s node None = Ok s"
| "unlink_outer (Suc k) s node (Some arc0) =
     (case a_node (arcs s arc0) of
        None \<Rightarrow> TypeError
      | Some node1 \<Rightarrow>
          (case unlink_inner k s node node1 (n_arcList (nodes s node1)) of
             Ok sa \<Rightarrow>
               (let hook = a_next (arcs sa arc0);
                    s1 = (case a_prev (arcs sa arc0) of
                            None \<Rightarrow> sa
                          | Some p \<Rightarrow> upd_arc p (arc_set_next hook) sa);
                    s2 = (case hook of
                            None \<Rightarrow> s1
                          | Some h \<Rightarrow> upd_arc h (arc_set_previous (a_prev (arcs s1 arc0))) s1);
                    s3 = (if n_arcList (nodes s2 node) = Some arc0
                          then upd_node node (node_set_arcList hook) s2
                          else s2)
                in unlink_outer k s3 node hook)
           | TypeError \<Rightarrow> TypeError
           | OutOfFuel \<Rightarrow> OutOfFuel))"

definition unlink :: "nat \<Rightarrow> 'v state \<Rightarrow> nref \<Rightarrow> 'v state outcome" where
  "unlink fuel s node =
     (case unlink_outer fuel s node (n_arcList (nodes s node)) of
        Ok s1 \<Rightarrow> Ok (upd_node node (node_set_arcList None) s1)
      | TypeError \<Rightarrow> TypeError
      | OutOfFuel \<Rightarrow> OutOfFuel)"

text \<open>
  \<open>removeNode(node)\<close>: unlink, splice the node out of the node list (neighbours through
  the setters, the head directly), decrement the size.
\<close>

definition removeNode :: "nat \<Rightarrow> 'v state \<Rightarrow> nref arg \<Rightarrow> 'v state outcome" where
  "removeNode fuel s node =
     (case arg_ref node of
        None \<Rightarrow> Ok s
      | Some n \<Rightarrow>
          (case unlink fuel s n of
             Ok sa \<Rightarrow>
               (let s1 = (case n_prev (nodes sa n) of
                            None \<Rightarrow> sa
                          | Some p \<Rightarrow> upd_node p (node_set_next (n_next (nodes sa n))) sa);
                    s2 = (case n_next (nodes s1 n) of
                            None \<Rightarrow> s1
                          | Some nx \<Rightarrow> upd_node nx (node_set_previous (n_prev (nodes s1 n))) s1);
                    s3 = (if g_nodeList s2 = Some n
                          then s2\<lparr>g_nodeList := n_next (nodes s2 n)\<rparr>
                          else s2)
                in Ok (s3\<lparr>g_size := g_size s3 - 1\<rparr>))
           | TypeError \<Rightarrow> TypeError
           | OutOfFuel \<Rightarrow> OutOfFuel))"

text \<open>
  \<open>remove(x)\<close>: every node of the list whose value is \<open>==\<close> to \<open>x\<close> is unlinked,
  assigned \<open>null\<close> fields through the setters, and counted off the size.
\<close>

fun remove_loop :: "nat \<Rightarrow> 'v state \<Rightarrow> nref option \<Rightarrow> 'v jsval option \<Rightarrow> bool
    \<Rightarrow> (bool \<times> 'v state) outcome" where
  "remove_loop 0 s node x found = OutOfFuel"
| "remove_loop (Suc k) s None x found = Ok (found, s)"
| "remove_loop (Suc k) s (Some node) x found =
     (let next = n_next (nodes s node)
      in if loose_eq (n_val (nodes s node)) x
         then (case unlink k s node of
                 Ok sa \<Rightarrow>
                   (let s1 = upd_node node (node_set_value None) sa;
                        s2 = upd_node node (node_set_next None) s1;
                        s3 = upd_node node (node_set_previous None) s2;
                        s4 = upd_node node (node_set_arcList None) s3
                    in remove_loop k (s4\<lparr>g_size := g_size s4 - 1\<rparr>) next x True)
               | TypeError \<Rightarrow> TypeError
               | OutOfFuel \<Rightarrow> OutOfFuel)
         else remove_loop k s next x found)"

definition remove :: "nat \<Rightarrow> 'v state \<Rightarrow> 'v jsval option \<Rightarrow> (bool \<times> 'v state) outcome" where
  "remove fuel s x = remove_loop fuel s (g_nodeList s) x False"

text \<open>\<open>toArray()\<close>: the nodes of the list, head first.\<close>

fun toArray_loop :: "nat \<Rightarrow> 'v state \<Rightarrow> nref option \<Rightarrow> nref list \<Rightarrow> nref list outcome" where
  "toArray_loop 0 s node a = OutOfFuel"
| "toArray_loop (Suc k) s None a = Ok a"
| "toArray_loop (Suc k) s (Some n) a = toArray_loop k s (n_next (nodes s n)) (a @ [n])"

definition toArray :: "nat \<Rightarrow> 'v state \<Rightarrow> nref list outcome" where
  "toArray fuel s = toArray_loop fuel s (g_nodeList s) []"

text \<open>
  \<open>addEdge(source, target, cost = 1.0)\<close>: the list is walked for the source and then,
  from the head again, for the target; only then is the arc added. An argument that is no
  node of the list (absent, or anything else) matches nothing, so it is \<open>None\<close> here.
\<close>

fun addEdge_inner :: "nat \<Rightarrow> 'v state \<Rightarrow> nref \<Rightarrow> nref option \<Rightarrow> nref option \<Rightarrow> number \<Rightarrow> 'v state outcome" where
  "addEdge_inner 0 s sourceNode walk target cost = OutOfFuel"
| "addEdge_inner (Suc k) s sourceNode None target cost = Ok s"
| "addEdge_inner (Suc k) s sourceNode (Some w) target cost =
     (if Some w = target then addArc s sourceNode (Obj w) cost
      else addEdge_inner k s sourceNode (n_next (nodes s w)) target cost)"

fun addEdge_outer :: "nat \<Rightarrow> 'v state \<Rightarrow> nref option \<Rightarrow> nref option \<Rightarrow> nref option \<Rightarrow> number \<Rightarrow> 'v state outcome" where
  "addEdge_outer 0 s walk source target cost = OutOfFuel"
| "addEdge_outer (Suc k) s None source target cost = Ok s"
| "addEdge_outer (Suc k) s (Some w) source target cost =
     (if Some w = source then addEdge_inner k s w (g_nodeList s) target cost
      else addEdge_outer k s (n_next (nodes s w)) source target cost)"

definition addEdge :: "nat \<Rightarrow> 'v state \<Rightarrow> nref option \<Rightarrow> nref option \<Rightarrow> number \<Rightarrow> 'v state outcome" where
  "addEdge fuel s source target cost =
     addEdge_outer fuel s (g_nodeList s) source target (Math_max0 cost)"

text \<open>\<open>clearMarks()\<close>: every node of the list, from the head, is unmarked.\<close>

fun reset_marks :: "nat \<Rightarrow> 'v state \<Rightarrow> nref option \<Rightarrow> 'v state outcome" where
  "reset_marks 0 s node = OutOfFuel"
| "reset_marks (Suc k) s None = Ok s"
| "reset_marks (Suc k) s (Some n) =
     (let s1 = upd_node n (node_set_marked False) s
      in reset_marks k s1 (n_next (nodes s1 n)))"

definition clearMarks :: "nat \<Rightarrow> 'v state \<Rightarrow> 'v state outcome" where
  "clearMarks fuel s = reset_marks fuel s (g_nodeList s)"

text \<open>
  The \<open>startNode\<close> argument of a traversal: absent (\<open>undefined\<close> takes the default
  \<open>null\<close>), a node, or any other value, which is looked up with \<open>findNode\<close>.
\<close>

datatype 'v start = NoStart | StartNode nref | StartValue "'v jsval"

definition resolve_start :: "nat \<Rightarrow> 'v state \<Rightarrow> 'v start \<Rightarrow> nref option outcome" where
  "resolve_start fuel s startNode =
     (case startNode of
        NoStart \<Rightarrow> Ok (g_nodeList s)
      | StartNode n \<Rightarrow> Ok (Some n)
      | StartValue v \<Rightarrow> findNode fuel s (Some v))"

text \<open>
  \<open>__DFSTraversal(node)\<close>: mark, record, then follow the arcs in list order and recurse
  into every target that is not marked. The second function is the \<open>while\<close> loop.
\<close>

fun DFSTraversal :: "nat \<Rightarrow> 'v state \<Rightarrow> nref \<Rightarrow> 'v state outcome"
  and DFS_arcs :: "nat \<Rightarrow> 'v state \<Rightarrow> aref option \<Rightarrow> 'v state outcome" where
  "DFSTraversal 0 s node = OutOfFuel"
| "DFSTraversal (Suc k) s node =
     (let s1 = upd_node node (node_set_marked True) s;
          s2 = s1\<lparr>g_traversal := g_traversal s1 @ [node]\<rparr>
      in DFS_arcs k s2 (n_arcList (nodes s2 node)))"
| "DFS_arcs 0 s arc = OutOfFuel"
| "DFS_arcs (Suc k) s None = Ok s"
| "DFS_arcs (Suc k) s (Some arc) =
     (case a_node (arcs s arc) of
        None \<Rightarrow> TypeError
      | Some node \<Rightarrow>
          (if \<not> n_marked (nodes s node)
           then (case DFSTraversal k s node of
                   Ok s1 \<Rightarrow> DFS_arcs k s1 (a_next (arcs s1 arc))
                 | TypeError \<Rightarrow> TypeError
                 | OutOfFuel \<Rightarrow> OutOfFuel)
           else DFS_arcs k s (a_next (arcs s arc))))"

text \<open>
  \<open>DFS(startNode = null)\<close>. The returned array holds references; with size one it is
  the head of the list whatever that is, hence the optional elements.
\<close>

definition DFS :: "nat \<Rightarrow> 'v state \<Rightarrow> 'v start \<Rightarrow> (nref option list \<times> 'v state) outcome" where
  "DFS fuel s startNode =
     (if g_size s = 0 then Ok ([], s)
      else if g_size s = 1 then Ok ([g_nodeList s], s)
      else (let s0 = s\<lparr>g_struct := [], g_traversal := []\<rparr>
            in case resolve_start fuel s0 startNode of
                 Ok None \<Rightarrow> Ok ([], s0)
               | Ok (Some rootNode) \<Rightarrow>
                   (case reset_marks fuel s0 (Some rootNode) of
                      Ok s1 \<Rightarrow>
                        (case DFSTraversal fuel s1 rootNode of
                           Ok s2 \<Rightarrow> Ok (map Some (g_traversal s2), s2)
                         | TypeError \<Rightarrow> TypeError
                         | OutOfFuel \<Rightarrow> OutOfFuel)
                    | TypeError \<Rightarrow> TypeError
                    | OutOfFuel \<Rightarrow> OutOfFuel)
               | TypeError \<Rightarrow> TypeError
               | OutOfFuel \<Rightarrow> OutOfFuel))"

text \<open>
  \<open>__BFSTraversal(node)\<close>: the start node is marked and enqueued; a node is recorded
  when it is dequeued, and each unmarked target of its arcs is marked and enqueued.
\<close>

fun BFS_arcs :: "nat \<Rightarrow> 'v state \<Rightarrow> aref option \<Rightarrow> 'v state outcome" where
  "BFS_arcs 0 s arc = OutOfFuel"
| "BFS_arcs (Suc k) s None = Ok s"
| "BFS_arcs (Suc k) s (Some arc) =
     (case a_node (arcs s arc) of
        None \<Rightarrow> TypeError
      | Some node \<Rightarrow>
          (let s1 = (if \<not> n_marked (nodes s node)
                     then (upd_node node (node_set_marked True) s)\<lparr>g_struct := g_struct s @ [node]\<rparr>
                     else s)
           in BFS_arcs k s1 (a_next (arcs s1 arc))))"

fun BFS_loop :: "nat \<Rightarrow> 'v state \<Rightarrow> 'v state outcome" where
  "BFS_loop 0 s = OutOfFuel"
| "BFS_loop (Suc k) s =
     (case g_struct s of
        [] \<Rightarrow> Ok s
      | node # rest \<Rightarrow>
          (let s1 = s\<lparr>g_struct := rest, g_traversal := g_traversal s @ [node]\<rparr>
           in case BFS_arcs k s1 (n_arcList (nodes s1 node)) of
                Ok s2 \<Rightarrow> BFS_loop k s2
              | TypeError \<Rightarrow> TypeError
              | OutOfFuel \<Rightarrow> OutOfFuel))"

definition BFSTraversal :: "nat \<Rightarrow> 'v state \<Rightarrow> nref \<Rightarrow> 'v state outcome" where
  "BFSTraversal fuel s node =
     BFS_loop fuel ((upd_node node (node_set_marked True) s)\<lparr>g_struct := g_struct s @ [node]\<rparr>)"

definition BFS :: "nat \<Rightarrow> 'v state \<Rightarrow> 'v start \<Rightarrow> (nref option list \<times> 'v state) outcome" where
  "BFS fuel s startNode =
     (if g_size s = 0 then Ok ([], s)
      else if g_size s = 1 then Ok ([g_nodeList s], s)
      else (let s0 = s\<lparr>g_struct := [], g_traversal := []\<rparr>
            in case resolve_start fuel s0 startNode of
                 Ok None \<Rightarrow> Ok ([], s0)
               | Ok (Some rootNode) \<Rightarrow>
                   (case reset_marks fuel s0 (Some rootNode) of
                      Ok s1 \<Rightarrow>
                        (case BFSTraversal fuel s1 rootNode of
                           Ok s2 \<Rightarrow> Ok (map Some (g_traversal s2), s2)
                         | TypeError \<Rightarrow> TypeError
                         | OutOfFuel \<Rightarrow> OutOfFuel)
                    | TypeError \<Rightarrow> TypeError
                    | OutOfFuel \<Rightarrow> OutOfFuel)
               | TypeError \<Rightarrow> TypeError
               | OutOfFuel \<Rightarrow> OutOfFuel))"

subsection \<open>graphFromList\<close>

text \<open>
  The description of a graph: nodes with a string id and an optional value, edges from one
  id to one id or to an array of ids. For the value, \<open>None\<close> is a node without the
  property, \<open>Some None\<close> one whose property holds an absent value. The project compiles
  without strict null checks (its tests pass \<open>null\<close> for the whole description), so the two
  arrays of a description may be absent as well: \<open>None\<close> is \<open>null\<close> or \<open>undefined\<close>.
  The entries of the arrays are objects with string fields, as the interfaces declare.
\<close>

record IGraphNode =
  gn_id :: string
  gn_value :: "string option option"

datatype edge_to = ToOne string | ToMany "string list"

record IGraphEdge =
  ge_from :: string
  ge_to :: edge_to

record GraphList =
  gl_nodes :: "IGraphNode list option"
  gl_edges :: "IGraphEdge list option"

text \<open>
  \<open>nodes.forEach\<close>: a node object per entry, entered in the cache under its id (a later
  entry with the same id replaces the earlier one) and added to the graph. The cache is a
  plain object used as a dictionary, which a map describes for every key but \<open>__proto__\<close>
  (an entry with that id would replace the prototype of the cache instead of adding a key);
  the model is for descriptions whose ids are other strings.
\<close>

fun add_nodes :: "string state \<Rightarrow> (string \<rightharpoonup> nref) \<Rightarrow> IGraphNode list
    \<Rightarrow> (string state \<times> (string \<rightharpoonup> nref)) outcome" where
  "add_nodes s nodeList [] = Ok (s, nodeList)"
| "add_nodes s nodeList (nodeData # rest) =
     (let (node, s1) = alloc_node None s;
          s2 = upd_node node (node_set_id (StrId (gn_id nodeData))) s1;
          s3 = upd_node node
                 (node_set_value (case gn_value nodeData of
                                    Some v \<Rightarrow> map_option Val v
                                  | None \<Rightarrow> Some (Val (gn_id nodeData)))) s2
      in case addNode s3 (Obj node) of
           Ok s4 \<Rightarrow> add_nodes s4 (nodeList(gn_id nodeData \<mapsto> node)) rest
         | TypeError \<Rightarrow> TypeError
         | OutOfFuel \<Rightarrow> OutOfFuel)"

text \<open>\<open>toList.forEach\<close>: one \<open>graph.addEdge(from, to)\<close> for each id of the array.\<close>

fun add_targets :: "nat \<Rightarrow> string state \<Rightarrow> (string \<rightharpoonup> nref) \<Rightarrow> nref option \<Rightarrow> string list
    \<Rightarrow> string state outcome" where
  "add_targets fuel s nodeList from [] = Ok s"
| "add_targets fuel s nodeList from (nodeID # rest) =
     (case addEdge fuel s from (nodeList nodeID) (Num 1) of
        Ok s1 \<Rightarrow> add_targets fuel s1 nodeList from rest
      | TypeError \<Rightarrow> TypeError
      | OutOfFuel \<Rightarrow> OutOfFuel)"

fun add_edges :: "nat \<Rightarrow> string state \<Rightarrow> (string \<rightharpoonup> nref) \<Rightarrow> IGraphEdge list
    \<Rightarrow> string state outcome" where
  "add_edges fuel s nodeList [] = Ok s"
| "add_edges fuel s nodeList (edgeData # rest) =
     (let from = nodeList (ge_from edgeData)
      in case (case ge_to edgeData of
                 ToMany toList \<Rightarrow> add_targets fuel s nodeList from toList
               | ToOne t \<Rightarrow> addEdge fuel s from (nodeList t) (Num 1)) of
           Ok s1 \<Rightarrow> add_edges fuel s1 nodeList rest
         | TypeError \<Rightarrow> TypeError
         | OutOfFuel \<Rightarrow> OutOfFuel)"

text \<open>
  \<open>graphFromList(data)\<close>: only \<open>undefined\<close> and \<open>null\<close> are answered with the new graph.
  \<open>nodes.forEach\<close> on an absent array throws before anything is added, \<open>edges.forEach\<close>
  on an absent array throws after the nodes have been added.
\<close>

definition graphFromList :: "nat \<Rightarrow> string state \<Rightarrow> GraphList arg \<Rightarrow> string state outcome" where
  "graphFromList fuel s data =
     (let graph = new_Graph s
      in case data of
           Obj d \<Rightarrow>
             (case gl_nodes d of
                None \<Rightarrow> TypeError
              | Some node_array \<Rightarrow>
                  (case add_nodes graph Map.empty node_array of
                     Ok (s1, nodeList) \<Rightarrow>
                       (case gl_edges d of
                          None \<Rightarrow> TypeError
                        | Some edge_array \<Rightarrow> add_edges fuel s1 nodeList edge_array)
                   | TypeError \<Rightarrow> TypeError
                   | OutOfFuel \<Rightarrow> OutOfFuel))
         | _ \<Rightarrow> Ok graph)"

text \<open>
  Modelled from the spec: the test description \<open>graph1\<close> (the file \<open>src/graphs/tests\<close>
  is not part of the sources): nodes R, A, B, C, D, E, F, G and the edges
  A\<rightarrow>D, D\<rightarrow>G, R\<rightarrow>A, R\<rightarrow>B, R\<rightarrow>C, B\<rightarrow>E, C\<rightarrow>F in this order.
\<close>

definition graph1 :: GraphList where
  "graph1 =
     \<lparr>gl_nodes = Some (map (\<lambda>i. \<lparr>gn_id = i, gn_value = None\<rparr>)
        [''R'', ''A'', ''B'', ''C'', ''D'', ''E'', ''F'', ''G'']),
      gl_edges = Some (map (\<lambda>(f, t). \<lparr>ge_from = f, ge_to = ToOne t\<rparr>)
        [(''A'', ''D''), (''D'', ''G''), (''R'', ''A''), (''R'', ''B''), (''R'', ''C''),
         (''B'', ''E''), (''C'', ''F'')])\<rparr>"

text \<open>The ids of the nodes of a traversal result.\<close>

definition ids_of :: "'v state \<Rightarrow> nref option list \<Rightarrow> node_id option list" where
  "ids_of s ns = map (map_option (\<lambda>n. n_id (nodes s n))) ns"

subsection \<open>Sequencing and the scenarios of the tests\<close>

text \<open>Running one call after another; a throw or a cut-off ends the sequence.\<close>

definition and_then :: "'a outcome \<Rightarrow> ('a \<Rightarrow> 'b outcome) \<Rightarrow> 'b outcome" where
  "and_then m f = (case m of Ok x \<Rightarrow> f x | TypeError \<Rightarrow> TypeError | OutOfFuel \<Rightarrow> OutOfFuel)"

definition DFS_ids :: "nat \<Rightarrow> 'v state \<Rightarrow> 'v start \<Rightarrow> node_id option list outcome" where
  "DFS_ids fuel s startNode = and_then (DFS fuel s startNode) (\<lambda>(r, s'). Ok (ids_of s' r))"

definition BFS_ids :: "nat \<Rightarrow> 'v state \<Rightarrow> 'v start \<Rightarrow> node_id option list outcome" where
  "BFS_ids fuel s startNode = and_then (BFS fuel s startNode) (\<lambda>(r, s'). Ok (ids_of s' r))"

text \<open>
  Three nodes constructed with the values 1, 2 and 3, as the tests do; they get the
  addresses 0, 1 and 2 and belong to no graph yet.
\<close>

definition three_nodes :: "nat state" where
  "three_nodes =
     (let (root, s) = alloc_node (Some (Val 1)) empty_store;
          (node, s) = alloc_node (Some (Val 2)) s;
          (node1, s) = alloc_node (Some (Val 3)) s
      in s)"

text \<open>\<open>root.addArc(node, 2.0); root.addArc(node1, 3.0)\<close>\<close>

definition root_two_arcs :: "nat state outcome" where
  "root_two_arcs =
     and_then (addArc three_nodes 0 (Obj 1) (Num 2)) (\<lambda>s. addArc s 0 (Obj 2) (Num 3))"

text \<open>The three nodes added to the graph in order.\<close>

definition three_node_graph :: "nat state outcome" where
  "three_node_graph =
     and_then (addNode three_nodes (Obj 0)) (\<lambda>s.
     and_then (addNode s (Obj 1)) (\<lambda>s. addNode s (Obj 2)))"

text \<open>The nodes 0 and 1 added to the graph, and the single edge from 1 to 0.\<close>

definition back_edge_graph :: "nat state outcome" where
  "back_edge_graph =
     and_then (addNode three_nodes (Obj 0)) (\<lambda>s.
     and_then (addNode s (Obj 1)) (\<lambda>s. addEdge 5 s (Some 1) (Some 0) (Num 1)))"

text \<open>The nodes 0 and 1 added to the graph, and the edges from 0 to 1 and from 1 to 0.\<close>

definition mutual_graph :: "nat state outcome" where
  "mutual_graph =
     and_then (addNode three_nodes (Obj 0)) (\<lambda>s.
     and_then (addNode s (Obj 1)) (\<lambda>s.
     and_then (addEdge 5 s (Some 0) (Some 1) (Num 1)) (\<lambda>s. addEdge 5 s (Some 1) (Some 0) (Num 1))))"

text \<open>
  Two nodes added to the graph, then \<open>removeNode\<close> of the second, which stays in the list
  (see claim C3) while the size goes down to one.
\<close>

definition tail_removed_graph :: "nat state outcome" where
  "tail_removed_graph =
     and_then (addNode three_nodes (Obj 0)) (\<lambda>s.
     and_then (addNode s (Obj 1)) (\<lambda>s. removeNode 5 s (Obj 1)))"

text \<open>A description with one node and one edge between two ids that no node has.\<close>

definition dangling_edge :: GraphList where
  "dangling_edge =
     \<lparr>gl_nodes = Some [\<lparr>gn_id = ''A'', gn_value = None\<rparr>],
      gl_edges = Some [\<lparr>ge_from = ''X'', ge_to = ToOne ''Y''\<rparr>]\<rparr>"

text \<open>The store a scenario ends in.\<close>

definition ok_state :: "'v state outcome \<Rightarrow> 'v state" where
  "ok_state m = (case m of Ok s \<Rightarrow> s | TypeError \<Rightarrow> empty_store | OutOfFuel \<Rightarrow> empty_store)"

text \<open>A description with one edge that names two targets.\<close>

definition fan_out :: GraphList where
  "fan_out =
     \<lparr>gl_nodes = Some (map (\<lambda>i. \<lparr>gn_id = i, gn_value = None\<rparr>) [''R'', ''A'', ''B'']),
      gl_edges = Some [\<lparr>ge_from = ''R'', ge_to = ToMany [''A'', ''B'']\<rparr>]\<rparr>"

subsection \<open>The edge phase of graphFromList, as the specification words it\<close>

text \<open>
  One arc-creation call per named target: the calls an edge stands for, and the run of a
  list of calls, each a \<open>graph.addEdge(from, to)\<close> with the default cost.
\<close>

definition edge_calls :: "(string \<rightharpoonup> nref) \<Rightarrow> IGraphEdge \<Rightarrow> (nref option \<times> nref option) list" where
  "edge_calls nodeList e =
     map (\<lambda>nodeID. (nodeList (ge_from e), nodeList nodeID))
       (case ge_to e of ToOne t \<Rightarrow> [t] | ToMany ts \<Rightarrow> ts)"

fun run_calls :: "nat \<Rightarrow> string state \<Rightarrow> (nref option \<times> nref option) list
    \<Rightarrow> string state outcome" where
  "run_calls fuel s [] = Ok s"
| "run_calls fuel s (c # rest) =
     and_then (addEdge fuel s (fst c) (snd c) (Num 1)) (\<lambda>s1. run_calls fuel s1 rest)"

subsection \<open>The invariant of the traversals\<close>

text \<open>
  Every node recorded in the result or waiting in the queue is marked, and none occurs twice.
\<close>

definition recorded_marked :: "'v state \<Rightarrow> bool" where
  "recorded_marked s \<longleftrightarrow>
     distinct (g_traversal s @ g_struct s) \<and>
     (\<forall>n \<in> set (g_traversal s @ g_struct s). n_marked (nodes s n))"

section \<open>Properties\<close>

lemmas eval_defs = and_then_def DFS_ids_def BFS_ids_def three_nodes_def root_two_arcs_def
  three_node_graph_def back_edge_graph_def mutual_graph_def ok_state_def fan_out_def
  tail_removed_graph_def dangling_edge_def
  graphFromList_def new_Graph_def empty_store_def graph1_def alloc_node_def new_GraphNode_def
  node_clear_def upd_node_def upd_arc_def node_set_id_def node_set_value_def addNode_def
  node_set_previous_def node_set_next_def addEdge_def addArc_def new_GraphArc_def
  arc_set_previous_def arc_set_next_def arc_clear_def DFS_def resolve_start_def
  node_set_marked_def ids_of_def findNode_def BFS_def BFSTraversal_def arcCount_def getArc_def
  removeArc_def removeNode_def unlink_def node_set_arcList_def remove_def toArray_def
  clear_def arc_set_node_def eval_nat_numeral Let_def

text \<open>
  claim C1 (the code departs from it). \<open>removeArc\<close> on a target whose arc is the last of
  a list of two returns true, but the arc count is still two and the list still reaches both
  targets: the predecessor's \<open>next\<close> is assigned \<open>null\<close> through a setter that ignores it.
\<close>

theorem removeArc_tail_not_removed:
  "and_then root_two_arcs (\<lambda>s.
     and_then (arcCount 5 s 0) (\<lambda>before.
     and_then (arc_targets 5 s (n_arcList (nodes s 0))) (\<lambda>ts.
     and_then (removeArc 5 s 0 (Obj 2)) (\<lambda>(result, s').
     and_then (arcCount 5 s' 0) (\<lambda>after.
     and_then (arc_targets 5 s' (n_arcList (nodes s' 0))) (\<lambda>ts'.
       Ok (before, ts, result, after, ts')))))))
   = Ok (2, [Some 1, Some 2], True, 2, [Some 1, Some 2])"
  by (simp add: eval_defs)

text \<open>
  claim C2 (the code departs from it). In the graph with the nodes 0 and 1 and the edge from
  1 to 0, a first \<open>DFS\<close> from node 1 returns both nodes. After a \<open>DFS\<close> from node 0, which
  leaves node 0 marked, the same call returns node 1 alone: the marks are reset from the
  start node onwards only, and node 0 stands before node 1 in the list. \<open>BFS\<close> does
  the same.
\<close>

theorem traversal_depends_on_earlier_marks:
  "and_then back_edge_graph (\<lambda>s.
     and_then (DFS 5 s (StartNode 1)) (\<lambda>(fresh, _).
     and_then (DFS 5 s (StartNode 0)) (\<lambda>(first, s1).
     and_then (DFS 5 s1 (StartNode 1)) (\<lambda>(second, s2).
       Ok (fresh, first, n_marked (nodes s1 0), second)))))
   = Ok ([Some 1, Some 0], [Some 0], True, [Some 1]) \<and>
   and_then back_edge_graph (\<lambda>s.
     and_then (BFS 5 s (StartNode 1)) (\<lambda>(fresh, _).
     and_then (BFS 5 s (StartNode 0)) (\<lambda>(first, s1).
     and_then (BFS 5 s1 (StartNode 1)) (\<lambda>(second, s2).
       Ok (fresh, first, n_marked (nodes s1 0), second)))))
   = Ok ([Some 1, Some 0], [Some 0], True, [Some 1])"
  by (simp add: eval_defs)

text \<open>
  claim C3 (the code departs from it). After three nodes are added, \<open>removeNode\<close> of the
  last one, and likewise \<open>remove\<close> of the value of the middle one, give size two while
  \<open>toArray()\<close> still has three elements; \<open>addNode(null)\<close> on an empty graph gives size
  one and an empty array.
\<close>

theorem size_differs_from_toArray_length:
  "and_then three_node_graph (\<lambda>s.
     and_then (removeNode 5 s (Obj 2)) (\<lambda>s'.
     and_then (toArray 5 s') (\<lambda>a. Ok (g_size s', a)))) = Ok (2, [0, 1, 2]) \<and>
   and_then three_node_graph (\<lambda>s.
     and_then (remove 5 s (Some (Val 2))) (\<lambda>(found, s').
     and_then (toArray 5 s') (\<lambda>a. Ok (found, g_size s', a)))) = Ok (True, 2, [0, 1, 2]) \<and>
   and_then (addNode (empty_store :: nat state) Null) (\<lambda>s'.
     and_then (toArray 5 s') (\<lambda>a. Ok (g_size s', a))) = Ok (1, [])"
  by (simp add: eval_defs)

text \<open>
  claim C5. The description \<open>graph1\<close> gives a graph of eight nodes on which \<open>DFS\<close> from R
  (the default start, or R looked up by value) returns R, A, D, G, B, E, C, F and \<open>BFS\<close>
  returns R, A, B, C, D, E, F, G.
\<close>

theorem graph1_traversal_orders:
  "and_then (graphFromList 20 empty_store (Obj graph1)) (\<lambda>s.
     and_then (DFS_ids 20 s NoStart) (\<lambda>d.
     and_then (BFS_ids 20 s NoStart) (\<lambda>b.
     and_then (DFS_ids 20 s (StartValue (Val ''R''))) (\<lambda>d'.
     and_then (BFS_ids 20 s (StartValue (Val ''R''))) (\<lambda>b'. Ok (g_size s, d, b, d', b'))))))
   = Ok (8,
         map (\<lambda>i. Some (StrId i)) [''R'', ''A'', ''D'', ''G'', ''B'', ''E'', ''C'', ''F''],
         map (\<lambda>i. Some (StrId i)) [''R'', ''A'', ''B'', ''C'', ''D'', ''E'', ''F'', ''G''],
         map (\<lambda>i. Some (StrId i)) [''R'', ''A'', ''D'', ''G'', ''B'', ''E'', ''C'', ''F''],
         map (\<lambda>i. Some (StrId i)) [''R'', ''A'', ''B'', ''C'', ''D'', ''E'', ''F'', ''G''])"
  by (simp add: eval_defs)

text \<open>
  claim C6 (the code departs from it). After \<open>clear()\<close> on the graph with the nodes 0 and 1
  and the edge from 1 to 0, the graph is empty, but node 0 still has its value and its
  \<open>next\<close>, node 1 its \<open>previous\<close> and its arc-list head, and the arc its target: every
  \<open>null\<close> is assigned through a setter that ignores it.
\<close>

theorem clear_leaves_nodes_and_arcs:
  "and_then back_edge_graph (\<lambda>s.
     and_then (clear 5 s) (\<lambda>s'.
       Ok (g_size s', g_nodeList s', g_curNode s',
           n_val (nodes s' 0), n_next (nodes s' 0), n_prev (nodes s' 1),
           n_arcList (nodes s' 1), a_node (arcs s' 0))))
   = Ok (0, None, None, Some (Val 1), Some 1, Some 0, Some 0, Some 0)"
  by (simp add: eval_defs)

text \<open>
  The cause, for every store: a setter given \<open>null\<close> returns the object as it was, so
  whenever \<open>clear()\<close> returns, no node and no arc has changed; only the fields of the graph
  and its two buffers are reset.
\<close>

lemma setters_ignore_null:
  "arc_set_previous None a = a" "arc_set_next None a = a" "arc_set_node None a = a"
  "node_set_value None n = n" "node_set_previous None n = n" "node_set_next None n = n"
  "node_set_arcList None n = n" "node_set_parent None n = n"
  by (simp_all add: arc_set_previous_def arc_set_next_def arc_set_node_def node_set_value_def
      node_set_previous_def node_set_next_def node_set_arcList_def node_set_parent_def)

lemma clear_arcs_same: "clear_arcs k s a = Ok s' \<Longrightarrow> s' = s"
proof (induction k s a rule: clear_arcs.induct)
  case (3 k s arc)
  have "upd_arc arc (arc_set_previous None) s = s" "upd_arc arc (arc_set_next None) s = s"
    "upd_arc arc (arc_set_node None) s = s"
    by (simp_all add: upd_arc_def setters_ignore_null)
  with 3 show ?case by (simp add: Let_def)
qed simp_all

lemma clear_nodes_same: "clear_nodes k s n = Ok s' \<Longrightarrow> s' = s"
proof (induction k s n rule: clear_nodes.induct)
  case (3 k s node)
  from "3.prems" obtain s1 where a: "clear_arcs k s (n_arcList (nodes s node)) = Ok s1"
    by (auto simp: Let_def split: outcome.splits)
  then have s1: "s1 = s" by (rule clear_arcs_same)
  have same: "upd_node node (node_set_value None) s = s"
    "upd_node node (node_set_previous None) s = s"
    "upd_node node (node_set_next None) s = s" "upd_node node (node_set_arcList None) s = s"
    by (simp_all add: upd_node_def setters_ignore_null)
  from "3.prems" a s1 same have "clear_nodes k s (n_next (nodes s node)) = Ok s'"
    by (simp add: Let_def)
  with "3.IH" [OF refl a [unfolded s1] refl refl refl refl] same s1 show ?case
    by simp
qed simp_all

lemma clear_resets_graph_fields_only:
  "clear fuel s = Ok s' \<Longrightarrow>
     s' = s\<lparr>g_struct := [], g_traversal := [], g_nodeList := None, g_curNode := None, g_size := 0\<rparr>"
  by (auto simp: clear_def Let_def split: outcome.splits dest!: clear_nodes_same)

text \<open>
  claim C4 (the code departs from it). With the edges from 0 to 1 and from 1 to 0,
  \<open>removeNode\<close> of node 0 leaves node 1, the only node left, with its arc to node 0, and
  node 0 with its arc-list head: the head of a list is assigned \<open>null\<close> through a setter
  that ignores it. With the single edge from 1 to 0, node 1 keeps its arc to the removed
  node 0 as well: \<open>__unlink\<close> only visits the targets of the removed node's own arcs.
\<close>

theorem removeNode_leaves_incoming_arc:
  "and_then mutual_graph (\<lambda>s.
     and_then (removeNode 5 s (Obj 0)) (\<lambda>s'.
     and_then (toArray 5 s') (\<lambda>a.
     and_then (arc_targets 5 s' (n_arcList (nodes s' 1))) (\<lambda>ts1.
     and_then (arc_targets 5 s' (n_arcList (nodes s' 0))) (\<lambda>ts0.
       Ok (g_size s', a, ts1, n_arcList (nodes s' 0), ts0))))))
   = Ok (1, [1], [Some 0], Some 0, [Some 1]) \<and>
   and_then back_edge_graph (\<lambda>s.
     and_then (removeNode 5 s (Obj 0)) (\<lambda>s'.
     and_then (toArray 5 s') (\<lambda>a.
     and_then (arc_targets 5 s' (n_arcList (nodes s' 1))) (\<lambda>ts1.
       Ok (g_size s', a, ts1, n_arcList (nodes s' 0))))))
   = Ok (1, [1], [Some 0], None)"
  by (simp add: eval_defs)

subsection \<open>Start-node resolution\<close>

lemma findNode_loop_buffers:
  "findNode_loop k (s\<lparr>g_struct := a, g_traversal := b\<rparr>) x v = findNode_loop k s x v"
  by (induction k s x v rule: findNode_loop.induct) simp_all

lemma findNode_buffers [simp]:
  "findNode k (s\<lparr>g_struct := a, g_traversal := b\<rparr>) v = findNode k s v"
  by (simp add: findNode_def findNode_loop_buffers)

text \<open>
  What the two traversals do as a function of the size field and of the argument, for
  every store.
\<close>

lemma traversal_by_size_field:
  "(g_size s = 0 \<longrightarrow> DFS fuel s st = Ok ([], s) \<and> BFS fuel s st = Ok ([], s)) \<and>
   (g_size s = 1 \<longrightarrow>
      DFS fuel s st = Ok ([g_nodeList s], s) \<and> BFS fuel s st = Ok ([g_nodeList s], s)) \<and>
   (g_nodeList s = Some h \<longrightarrow>
      DFS fuel s NoStart = DFS fuel s (StartNode h) \<and>
      BFS fuel s NoStart = BFS fuel s (StartNode h)) \<and>
   (findNode fuel s (Some v) = Ok (Some n) \<longrightarrow>
      DFS fuel s (StartValue v) = DFS fuel s (StartNode n) \<and>
      BFS fuel s (StartValue v) = BFS fuel s (StartNode n)) \<and>
   (findNode fuel s (Some v) = Ok None \<and> g_size s \<noteq> 1 \<longrightarrow>
      DFS fuel s (StartValue v) = Ok ([], if g_size s = 0 then s else s\<lparr>g_struct := [], g_traversal := []\<rparr>) \<and>
      BFS fuel s (StartValue v) = Ok ([], if g_size s = 0 then s else s\<lparr>g_struct := [], g_traversal := []\<rparr>))"
  by (simp add: DFS_def BFS_def resolve_start_def Let_def)

subsection \<open>The adapter\<close>

lemma run_calls_append:
  "run_calls fuel s (xs @ ys) = and_then (run_calls fuel s xs) (\<lambda>s1. run_calls fuel s1 ys)"
proof (induction xs arbitrary: s)
  case Nil
  show ?case by (simp add: and_then_def)
next
  case (Cons c xs)
  show ?case
    by (cases "addEdge fuel s (fst c) (snd c) (Num 1)") (simp_all add: and_then_def Cons.IH)
qed

lemma add_targets_calls:
  "add_targets fuel s nodeList from ts = run_calls fuel s (map (\<lambda>t. (from, nodeList t)) ts)"
proof (induction ts arbitrary: s)
  case Nil
  show ?case by simp
next
  case (Cons t ts)
  show ?case
    by (cases "addEdge fuel s from (nodeList t) (Num 1)") (simp_all add: and_then_def Cons.IH)
qed

lemma add_edges_calls:
  "add_edges fuel s nodeList es = run_calls fuel s (concat (map (edge_calls nodeList) es))"
proof (induction es arbitrary: s)
  case Nil
  show ?case by simp
next
  case (Cons e es)
  show ?case
  proof (cases "ge_to e")
    case (ToOne t)
    then show ?thesis
      by (cases "addEdge fuel s (nodeList (ge_from e)) (nodeList t) (Num 1)")
        (simp_all add: edge_calls_def and_then_def Cons.IH)
  next
    case (ToMany ts)
    then show ?thesis
      by (cases "run_calls fuel s (map (\<lambda>t. (nodeList (ge_from e), nodeList t)) ts)")
        (simp_all add: edge_calls_def run_calls_append add_targets_calls and_then_def Cons.IH)
  qed
qed

lemma graphFromList_calls:
  "graphFromList fuel s (Obj \<lparr>gl_nodes = Some ns, gl_edges = Some es\<rparr>) =
     and_then (add_nodes (new_Graph s) Map.empty ns) (\<lambda>(s1, nodeList).
       run_calls fuel s1 (concat (map (edge_calls nodeList) es)))"
  by (cases "add_nodes (new_Graph s) Map.empty ns")
    (auto simp: graphFromList_def and_then_def add_edges_calls)

text \<open>
  claim C9, as stated, fails. A description whose arrays are absent makes \<open>graphFromList\<close>
  throw a \<open>TypeError\<close>, and a description whose only edge joins two undeclared ids gives
  a graph of size one that lists its node: neither invalid description is answered with an
  empty graph.
\<close>

theorem graphFromList_invalid_counterexample:
  "graphFromList 5 empty_store (Obj \<lparr>gl_nodes = None, gl_edges = None\<rparr>) = TypeError \<and>
   g_size (ok_state (graphFromList 5 empty_store (Obj dangling_edge))) = 1 \<and>
   toArray 5 (ok_state (graphFromList 5 empty_store (Obj dangling_edge))) = Ok [0]"
  by (simp add: eval_defs)

text \<open>
  claim C9, as amended. Given \<open>undefined\<close> or \<open>null\<close>, \<open>graphFromList\<close> returns the newly
  constructed graph: size zero, no head, an empty array. Given a description without a nodes
  array it throws; without an edges array it throws once the nodes are added. Given both
  arrays, it adds the nodes and then does exactly the calls of \<open>edge_calls\<close>, in order: for
  an edge naming an array of targets, one \<open>addEdge\<close> per target. On \<open>fan_out\<close> the source
  node ends with one arc to each of the two targets.
\<close>

theorem graphFromList_guard_and_targets:
  "graphFromList fuel s Undefined = Ok (new_Graph s) \<and>
   graphFromList fuel s Null = Ok (new_Graph s) \<and>
   g_size (new_Graph s) = 0 \<and> g_nodeList (new_Graph s) = None \<and>
   toArray (Suc k) (new_Graph s) = Ok [] \<and>
   graphFromList fuel s (Obj \<lparr>gl_nodes = None, gl_edges = any\<rparr>) = TypeError \<and>
   graphFromList fuel s (Obj \<lparr>gl_nodes = Some ns, gl_edges = None\<rparr>) =
     and_then (add_nodes (new_Graph s) Map.empty ns) (\<lambda>added. TypeError) \<and>
   graphFromList fuel s (Obj \<lparr>gl_nodes = Some ns, gl_edges = Some es\<rparr>) =
     and_then (add_nodes (new_Graph s) Map.empty ns) (\<lambda>(s1, nodeList).
       run_calls fuel s1 (concat (map (edge_calls nodeList) es))) \<and>
   edge_calls nodeList \<lparr>ge_from = f, ge_to = ToMany ts\<rparr>
     = map (\<lambda>t. (nodeList f, nodeList t)) ts \<and>
   length (edge_calls nodeList \<lparr>ge_from = f, ge_to = ToMany ts\<rparr>) = length ts \<and>
   and_then (graphFromList 5 empty_store (Obj fan_out))
     (\<lambda>s. arc_targets 5 s (n_arcList (nodes s 0))) = Ok [Some 1, Some 2]"
proof -
  have "graphFromList fuel s (Obj \<lparr>gl_nodes = Some ns, gl_edges = None\<rparr>) =
     and_then (add_nodes (new_Graph s) Map.empty ns) (\<lambda>added. TypeError)"
    by (cases "add_nodes (new_Graph s) Map.empty ns")
      (auto simp: graphFromList_def and_then_def)
  moreover have "and_then (graphFromList 5 empty_store (Obj fan_out))
     (\<lambda>s. arc_targets 5 s (n_arcList (nodes s 0))) = Ok [Some 1, Some 2]"
    by (simp add: eval_defs)
  moreover have "toArray (Suc k) (new_Graph s) = Ok []"
    by (simp add: toArray_def new_Graph_def)
  moreover have "graphFromList fuel s (Obj \<lparr>gl_nodes = None, gl_edges = any\<rparr>) = TypeError"
    by (simp add: graphFromList_def)
  moreover note graphFromList_calls [of fuel s ns es]
  ultimately show ?thesis
    by (simp add: graphFromList_def new_Graph_def edge_calls_def)
qed

subsection \<open>No node is recorded twice\<close>

lemma reset_marks_keeps:
  "reset_marks k s x = Ok s' \<Longrightarrow>
     g_traversal s' = g_traversal s \<and> g_struct s' = g_struct s \<and>
     (\<forall>m. \<not> n_marked (nodes s m) \<longrightarrow> \<not> n_marked (nodes s' m))"
proof (induction k s x rule: reset_marks.induct)
  case (3 k s n)
  let ?s1 = "upd_node n (node_set_marked False) s"
  from "3.prems" have run: "reset_marks k ?s1 (n_next (nodes ?s1 n)) = Ok s'"
    by (simp add: Let_def)
  from "3.IH" [OF refl run] show ?case
    by (auto simp: upd_node_def node_set_marked_def split: if_splits)
qed simp_all

lemma reset_marks_root:
  assumes "reset_marks k s (Some n) = Ok s'"
  shows "\<not> n_marked (nodes s' n) \<and> g_traversal s' = g_traversal s \<and> g_struct s' = g_struct s"
proof (cases k)
  case 0
  with assms show ?thesis by simp
next
  case (Suc j)
  let ?s1 = "upd_node n (node_set_marked False) s"
  from assms Suc have run: "reset_marks j ?s1 (n_next (nodes ?s1 n)) = Ok s'"
    by (simp add: Let_def)
  have "\<not> n_marked (nodes ?s1 n)"
    by (simp add: upd_node_def node_set_marked_def)
  with reset_marks_keeps [OF run] show ?thesis
    by (simp add: upd_node_def)
qed

lemma DFS_invariant:
  "(\<forall>(s :: 'v state) n s'. DFSTraversal k s n = Ok s' \<longrightarrow> g_struct s = [] \<longrightarrow> recorded_marked s \<longrightarrow>
       \<not> n_marked (nodes s n) \<longrightarrow> recorded_marked s' \<and> g_struct s' = []) \<and>
   (\<forall>(s :: 'v state) a s'. DFS_arcs k s a = Ok s' \<longrightarrow> g_struct s = [] \<longrightarrow> recorded_marked s \<longrightarrow>
       recorded_marked s' \<and> g_struct s' = [])"
proof (induction k)
  case 0
  show ?case by simp
next
  case (Suc k)
  have IH1: "recorded_marked s' \<and> g_struct s' = []"
    if "DFSTraversal k s n = Ok s'" "g_struct s = []" "recorded_marked s"
      "\<not> n_marked (nodes s n)" for s :: "'v state" and n s'
    using Suc.IH that by blast
  have IH2: "recorded_marked s' \<and> g_struct s' = []"
    if "DFS_arcs k s a = Ok s'" "g_struct s = []" "recorded_marked s" for s :: "'v state" and a s'
    using Suc.IH that by blast
  have trav: "recorded_marked s' \<and> g_struct s' = []"
    if run: "DFSTraversal (Suc k) s n = Ok s'" and e: "g_struct s = []"
      and inv: "recorded_marked s" and un: "\<not> n_marked (nodes s n)" for s :: "'v state" and n s'
  proof -
    let ?s2 = "(upd_node n (node_set_marked True) s)\<lparr>g_traversal := g_traversal s @ [n]\<rparr>"
    from run have arcs: "DFS_arcs k ?s2 (n_arcList (nodes ?s2 n)) = Ok s'"
      by (simp add: Let_def upd_node_def)
    from inv un e have "n \<notin> set (g_traversal s)"
      by (auto simp: recorded_marked_def)
    with inv e have "recorded_marked ?s2" "g_struct ?s2 = []"
      by (auto simp: recorded_marked_def upd_node_def node_set_marked_def)
    then show ?thesis by (rule IH2 [OF arcs _ _, rotated 1])
  qed
  have loop: "recorded_marked s' \<and> g_struct s' = []"
    if run: "DFS_arcs (Suc k) s a = Ok s'" and e: "g_struct s = []"
      and inv: "recorded_marked s" for s :: "'v state" and a s'
  proof (cases a)
    case None
    with run e inv show ?thesis by simp
  next
    case (Some arc)
    show ?thesis
    proof (cases "a_node (arcs s arc)")
      case None
      with run Some show ?thesis by simp
    next
      case (Some node)
      show ?thesis
      proof (cases "n_marked (nodes s node)")
        case True
        with run \<open>a = Some arc\<close> Some
        have "DFS_arcs k s (a_next (arcs s arc)) = Ok s'" by simp
        then show ?thesis using e inv by (rule IH2)
      next
        case False
        with run \<open>a = Some arc\<close> Some
        obtain s1 where t: "DFSTraversal k s node = Ok s1"
          and r: "DFS_arcs k s1 (a_next (arcs s1 arc)) = Ok s'"
          by (auto split: outcome.splits)
        from t e inv False have "recorded_marked s1 \<and> g_struct s1 = []" by (rule IH1)
        then show ?thesis using IH2 [OF r] by simp
      qed
    qed
  qed
  from trav loop show ?case by blast
qed

lemma DFS_distinct:
  assumes "DFS fuel s st = Ok (r, s')"
  shows "distinct r"
proof (cases "g_size s = 0 \<or> g_size s = 1")
  case True
  with assms show ?thesis by (auto simp: DFS_def)
next
  case False
  let ?s0 = "s\<lparr>g_struct := [], g_traversal := []\<rparr>"
  from assms False obtain root where
    res: "resolve_start fuel ?s0 st = Ok root"
    by (auto simp: DFS_def Let_def split: outcome.splits)
  show ?thesis
  proof (cases root)
    case None
    with assms False res show ?thesis by (auto simp: DFS_def Let_def)
  next
    case (Some rootNode)
    with assms False res obtain s1 s2 where
      m: "reset_marks fuel ?s0 (Some rootNode) = Ok s1" and
      t: "DFSTraversal fuel s1 rootNode = Ok s2" and
      r: "r = map Some (g_traversal s2)"
      by (auto simp: DFS_def Let_def split: outcome.splits)
    from reset_marks_root [OF m]
    have "\<not> n_marked (nodes s1 rootNode)" "g_traversal s1 = []" "g_struct s1 = []"
      by simp_all
    then have "recorded_marked s1" by (simp add: recorded_marked_def)
    with DFS_invariant [of fuel] t \<open>g_struct s1 = []\<close> \<open>\<not> n_marked (nodes s1 rootNode)\<close>
    have "recorded_marked s2" by metis
    then have "distinct (g_traversal s2)" by (simp add: recorded_marked_def)
    with r show ?thesis by (simp add: distinct_map)
  qed
qed


lemma BFS_arcs_invariant:
  "BFS_arcs k s a = Ok s' \<Longrightarrow> recorded_marked s \<Longrightarrow> recorded_marked s'"
proof (induction k s a rule: BFS_arcs.induct)
  case (3 k s arc)
  from "3.prems" obtain node where nd: "a_node (arcs s arc) = Some node"
    by (auto split: option.splits)
  let ?s1 = "if \<not> n_marked (nodes s node)
             then (upd_node node (node_set_marked True) s)\<lparr>g_struct := g_struct s @ [node]\<rparr>
             else s"
  from "3.prems" nd have run: "BFS_arcs k ?s1 (a_next (arcs ?s1 arc)) = Ok s'"
    by (simp add: Let_def)
  have "recorded_marked ?s1"
  proof (cases "n_marked (nodes s node)")
    case True
    with "3.prems" show ?thesis by simp
  next
    case False
    with "3.prems"(2) have "node \<notin> set (g_traversal s @ g_struct s)"
      by (auto simp: recorded_marked_def)
    with "3.prems"(2) False show ?thesis
      by (auto simp: recorded_marked_def upd_node_def node_set_marked_def)
  qed
  with "3.IH" [OF nd refl run] show ?case .
qed simp_all

lemma BFS_loop_invariant:
  "BFS_loop k s = Ok s' \<Longrightarrow> recorded_marked s \<Longrightarrow> recorded_marked s'"
proof (induction k s rule: BFS_loop.induct)
  case (2 k s)
  show ?case
  proof (cases "g_struct s")
    case Nil
    with "2.prems" show ?thesis by simp
  next
    case (Cons node rest)
    let ?s1 = "s\<lparr>g_struct := rest, g_traversal := g_traversal s @ [node]\<rparr>"
    from "2.prems" Cons obtain s2 where
      a: "BFS_arcs k ?s1 (n_arcList (nodes ?s1 node)) = Ok s2" and l: "BFS_loop k s2 = Ok s'"
      by (auto simp: Let_def split: outcome.splits)
    from "2.prems"(2) Cons have "recorded_marked ?s1"
      by (auto simp: recorded_marked_def)
    with a have "recorded_marked s2" by (rule BFS_arcs_invariant)
    with "2.IH" [OF Cons refl a l] show ?thesis .
  qed
qed simp_all

lemma BFS_distinct:
  assumes "BFS fuel s st = Ok (r, s')"
  shows "distinct r"
proof (cases "g_size s = 0 \<or> g_size s = 1")
  case True
  with assms show ?thesis by (auto simp: BFS_def)
next
  case False
  let ?s0 = "s\<lparr>g_struct := [], g_traversal := []\<rparr>"
  from assms False obtain root where
    res: "resolve_start fuel ?s0 st = Ok root"
    by (auto simp: BFS_def Let_def split: outcome.splits)
  show ?thesis
  proof (cases root)
    case None
    with assms False res show ?thesis by (auto simp: BFS_def Let_def)
  next
    case (Some rootNode)
    with assms False res obtain s1 s2 where
      m: "reset_marks fuel ?s0 (Some rootNode) = Ok s1" and
      t: "BFSTraversal fuel s1 rootNode = Ok s2" and
      r: "r = map Some (g_traversal s2)"
      by (auto simp: BFS_def Let_def split: outcome.splits)
    from reset_marks_root [OF m]
    have e: "g_traversal s1 = []" "g_struct s1 = []"
      by simp_all
    let ?s = "(upd_node rootNode (node_set_marked True) s1)\<lparr>g_struct := g_struct s1 @ [rootNode]\<rparr>"
    from e have "recorded_marked ?s"
      by (simp add: recorded_marked_def upd_node_def node_set_marked_def)
    moreover from t have "BFS_loop fuel ?s = Ok s2" by (simp add: BFSTraversal_def)
    ultimately have "recorded_marked s2" by (rule BFS_loop_invariant [rotated])
    then have "distinct (g_traversal s2)" by (simp add: recorded_marked_def)
    with r show ?thesis by (simp add: distinct_map)
  qed
qed

text \<open>
  claim C10. The sequence a \<open>DFS\<close> call returns and the sequence a \<open>BFS\<close> call returns
  hold no node twice, for every store, every start argument and every fuel.
\<close>

theorem traversal_distinct:
  "(DFS fuel s st = Ok (r, s') \<longrightarrow> distinct r) \<and> (BFS fuel s st = Ok (r, s') \<longrightarrow> distinct r)"
  using DFS_distinct BFS_distinct by blast

theorem traversal_distinct_witness:
  "(\<exists>s'. DFS 5 (ok_state mutual_graph) (StartNode 1) = Ok ([Some 1, Some 0], s')) \<and>
   (\<exists>s'. BFS 5 (ok_state mutual_graph) (StartNode 1) = Ok ([Some 1, Some 0], s')) \<and>
   distinct [Some (1 :: nat), Some 0]"
proof -
  have "\<exists>s'. DFS 5 (ok_state mutual_graph) (StartNode 1) = Ok ([Some 1, Some 0], s')"
    by (simp add: eval_defs)
  moreover have "\<exists>s'. BFS 5 (ok_state mutual_graph) (StartNode 1) = Ok ([Some 1, Some 0], s')"
    by (simp add: eval_defs)
  ultimately show ?thesis
    using traversal_distinct [of 5 "ok_state mutual_graph" "StartNode 1" "[Some 1, Some 0]"]
    by blast
qed

subsection \<open>Where a traversal starts\<close>

lemma toArray_loop_shape:
  "toArray_loop k s x acc = Ok r \<Longrightarrow>
     (x = None \<longrightarrow> r = acc) \<and> (\<forall>n. x = Some n \<longrightarrow> (\<exists>tail. r = acc @ n # tail))"
proof (induction k s x acc rule: toArray_loop.induct)
  case (3 k s n a)
  from "3.prems" have run: "toArray_loop k s (n_next (nodes s n)) (a @ [n]) = Ok r" by simp
  from "3.IH" [OF run] show ?case
    by (cases "n_next (nodes s n)") auto
qed simp_all

lemma toArray_head:
  assumes "toArray k s = Ok ns"
  shows "(ns = [] \<longleftrightarrow> g_nodeList s = None) \<and> (ns \<noteq> [] \<longrightarrow> g_nodeList s = Some (hd ns))"
  using toArray_loop_shape [of k s "g_nodeList s" "[]" ns] assms
  by (cases "g_nodeList s") (auto simp: toArray_def)

lemma DFS_grows:
  "(\<forall>(s :: 'v state) n s'. DFSTraversal k s n = Ok s' \<longrightarrow>
       (\<exists>rest. g_traversal s' = g_traversal s @ n # rest)) \<and>
   (\<forall>(s :: 'v state) a s'. DFS_arcs k s a = Ok s' \<longrightarrow>
       (\<exists>rest. g_traversal s' = g_traversal s @ rest))"
proof (induction k)
  case 0
  show ?case by simp
next
  case (Suc k)
  have IH1: "\<exists>rest. g_traversal s' = g_traversal s @ n # rest"
    if "DFSTraversal k s n = Ok s'" for s :: "'v state" and n s'
    using Suc.IH that by blast
  have IH2: "\<exists>rest. g_traversal s' = g_traversal s @ rest"
    if "DFS_arcs k s a = Ok s'" for s :: "'v state" and a s'
    using Suc.IH that by blast
  have trav: "\<exists>rest. g_traversal s' = g_traversal s @ n # rest"
    if run: "DFSTraversal (Suc k) s n = Ok s'" for s :: "'v state" and n s'
  proof -
    let ?s2 = "(upd_node n (node_set_marked True) s)\<lparr>g_traversal := g_traversal s @ [n]\<rparr>"
    from run have "DFS_arcs k ?s2 (n_arcList (nodes ?s2 n)) = Ok s'"
      by (simp add: Let_def upd_node_def)
    from IH2 [OF this] show ?thesis by (auto simp: upd_node_def)
  qed
  have loop: "\<exists>rest. g_traversal s' = g_traversal s @ rest"
    if run: "DFS_arcs (Suc k) s a = Ok s'" for s :: "'v state" and a s'
  proof (cases a)
    case None
    with run show ?thesis by simp
  next
    case (Some arc)
    show ?thesis
    proof (cases "a_node (arcs s arc)")
      case None
      with run Some show ?thesis by simp
    next
      case (Some node)
      show ?thesis
      proof (cases "n_marked (nodes s node)")
        case True
        with run \<open>a = Some arc\<close> Some
        have "DFS_arcs k s (a_next (arcs s arc)) = Ok s'" by simp
        then show ?thesis by (rule IH2)
      next
        case False
        with run \<open>a = Some arc\<close> Some
        obtain s1 where t: "DFSTraversal k s node = Ok s1"
          and r: "DFS_arcs k s1 (a_next (arcs s1 arc)) = Ok s'"
          by (auto split: outcome.splits)
        from IH1 [OF t] IH2 [OF r] show ?thesis by auto
      qed
    qed
  qed
  from trav loop show ?case by blast
qed

lemma BFS_arcs_grows:
  "BFS_arcs k s a = Ok s' \<Longrightarrow>
     g_traversal s' = g_traversal s \<and> (\<exists>more. g_struct s' = g_struct s @ more)"
proof (induction k s a rule: BFS_arcs.induct)
  case (3 k s arc)
  from "3.prems" obtain node where nd: "a_node (arcs s arc) = Some node"
    by (auto split: option.splits)
  let ?s1 = "if \<not> n_marked (nodes s node)
             then (upd_node node (node_set_marked True) s)\<lparr>g_struct := g_struct s @ [node]\<rparr>
             else s"
  from "3.prems" nd have run: "BFS_arcs k ?s1 (a_next (arcs ?s1 arc)) = Ok s'"
    by (simp add: Let_def)
  from "3.IH" [OF nd refl run] show ?case
    by (auto simp: upd_node_def split: if_splits)
qed simp_all

lemma BFS_loop_grows:
  "BFS_loop k s = Ok s' \<Longrightarrow> \<exists>rest. g_traversal s' = g_traversal s @ g_struct s @ rest"
proof (induction k s rule: BFS_loop.induct)
  case (2 k s)
  show ?case
  proof (cases "g_struct s")
    case Nil
    with "2.prems" show ?thesis by simp
  next
    case (Cons node rest)
    let ?s1 = "s\<lparr>g_struct := rest, g_traversal := g_traversal s @ [node]\<rparr>"
    from "2.prems" Cons obtain s2 where
      a: "BFS_arcs k ?s1 (n_arcList (nodes ?s1 node)) = Ok s2" and l: "BFS_loop k s2 = Ok s'"
      by (auto simp: Let_def split: outcome.splits)
    from BFS_arcs_grows [OF a] "2.IH" [OF Cons refl a l] Cons show ?thesis
      by auto
  qed
qed simp_all

lemma DFS_starts_at:
  assumes "DFS fuel s (StartNode m) = Ok (r, s')" "g_size s \<noteq> 0" "g_size s \<noteq> 1"
  shows "\<exists>rest. r = Some m # rest"
proof -
  let ?s0 = "s\<lparr>g_struct := [], g_traversal := []\<rparr>"
  from assms obtain s1 s2 where
    m: "reset_marks fuel ?s0 (Some m) = Ok s1" and
    t: "DFSTraversal fuel s1 m = Ok s2" and
    r: "r = map Some (g_traversal s2)"
    by (auto simp: DFS_def resolve_start_def Let_def split: outcome.splits)
  from reset_marks_root [OF m] have "g_traversal s1 = []" by simp
  with DFS_grows [of fuel] t obtain rest where "g_traversal s2 = m # rest" by fastforce
  with r show ?thesis by simp
qed

lemma BFS_starts_at:
  assumes "BFS fuel s (StartNode m) = Ok (r, s')" "g_size s \<noteq> 0" "g_size s \<noteq> 1"
  shows "\<exists>rest. r = Some m # rest"
proof -
  let ?s0 = "s\<lparr>g_struct := [], g_traversal := []\<rparr>"
  from assms obtain s1 s2 where
    m: "reset_marks fuel ?s0 (Some m) = Ok s1" and
    t: "BFSTraversal fuel s1 m = Ok s2" and
    r: "r = map Some (g_traversal s2)"
    by (auto simp: BFS_def resolve_start_def Let_def split: outcome.splits)
  from reset_marks_root [OF m] have e: "g_traversal s1 = []" "g_struct s1 = []" by simp_all
  let ?s = "(upd_node m (node_set_marked True) s1)\<lparr>g_struct := g_struct s1 @ [m]\<rparr>"
  from t have "BFS_loop fuel ?s = Ok s2" by (simp add: BFSTraversal_def)
  from BFS_loop_grows [OF this] e obtain rest where "g_traversal s2 = m # rest"
    by (auto simp: upd_node_def)
  with r show ?thesis by simp
qed




text \<open>
  claim C8. Assigning a finite cost that is not negative to an arc and reading it back
  gives that cost; assigning a negative number, \<open>NaN\<close> or an infinity leaves the stored
  cost as it was. The setter is total, so nothing is raised.
\<close>

theorem arc_cost_roundtrip:
  "(isFinite c \<and> ge_zero c \<longrightarrow> a_cost (arc_set_cost c a) = c) \<and>
   (\<not> ge_zero c \<or> isNaN c \<or> \<not> isFinite c \<longrightarrow> arc_set_cost c a = a)"
  by (cases c) (simp_all add: arc_set_cost_def)

theorem arc_cost_roundtrip_witness:
  "(isFinite (Num 10) \<and> ge_zero (Num 10) \<and>
      a_cost (arc_set_cost (Num 10) (new_GraphArc (Some 0) (Num 0))) = Num 10) \<and>
   (\<not> ge_zero (Num (- 1)) \<and>
      arc_set_cost (Num (- 1)) (new_GraphArc (Some 0) (Num 0)) = new_GraphArc (Some 0) (Num 0)) \<and>
   (isNaN NaN \<and> arc_set_cost NaN (new_GraphArc (Some 0) (Num 2)) = new_GraphArc (Some 0) (Num 2)) \<and>
   (\<not> isFinite PosInf \<and>
      arc_set_cost PosInf (new_GraphArc (Some 0) (Num 2)) = new_GraphArc (Some 0) (Num 2))"
  using arc_cost_roundtrip [of "Num 10" "new_GraphArc (Some 0) (Num 0)"]
    arc_cost_roundtrip [of "Num (- 1)" "new_GraphArc (Some 0) (Num 0)"]
    arc_cost_roundtrip [of NaN "new_GraphArc (Some 0) (Num 2)"]
    arc_cost_roundtrip [of PosInf "new_GraphArc (Some 0) (Num 2)"]
  by simp

end
